theory Spec2Isabelle
  imports Complex_Main "HOL-Library.Char_ord" "HOL-Library.List_Lexorder"
begin

section \<open>The workspace server of \<^verbatim>\<open>src/server/index.js\<close>\<close>

text \<open>
  The server keeps three SQLite tables that matter here (\<^verbatim>\<open>users\<close>,
  \<^verbatim>\<open>workspaces\<close>, \<^verbatim>\<open>workspace_members\<close>) and the socket.io room registry.
  Each HTTP handler and each socket handler is a function from the server state (and the
  request) to the new state and what it sends.

  Conventions of the embedding:
  \<^item> a JavaScript value that may be \<^verbatim>\<open>undefined\<close> is an \<open>option\<close>, \<open>None\<close> being
    \<^verbatim>\<open>undefined\<close>;
  \<^item> a request body is JSON. The fields the client declares as strings
    (\<^verbatim>\<open>createWorkspace({id: string, name: string, diagram: unknown})\<close>,
    \<^verbatim>\<open>updateWorkspace(id, {name?: string, diagram?: unknown})\<close>,
    \<^verbatim>\<open>login(email: string, password: string)\<close>) are absent, \<^verbatim>\<open>null\<close> or a string:
    \<^verbatim>\<open>id\<close>, \<^verbatim>\<open>name\<close> and \<^verbatim>\<open>email\<close> reach a bound SQL parameter, and what
    the driver binds for a value of another type is not in the source. \<^verbatim>\<open>diagram\<close> and
    \<^verbatim>\<open>password\<close> are any JSON value;
  \<^item> a \<^verbatim>\<open>TEXT\<close> column holding a timestamp is the string itself, compared as SQLite
    compares text (bytewise, which is the lexicographic order on \<open>string\<close>);
  \<^item> the text that \<^verbatim>\<open>JSON.stringify\<close> yields is represented by the value that
    \<^verbatim>\<open>JSON.parse\<close> reads back from it (\<open>Stringified v\<close>);
  \<^item> the readings of the clock (\<^verbatim>\<open>new Date().toISOString()\<close>, SQLite's
    \<^verbatim>\<open>datetime('now')\<close>) and the outcome of a statement that fails for a reason other
    than a uniqueness constraint are inputs of the handler that takes them.
\<close>

subsection \<open>JSON values and JavaScript truthiness\<close>

datatype json =
    JNull
  | JBool bool
  | JNum rat
  | JInfinity bool
  | JStr string
  | JArr "json list"
  | JObj "(string \<times> json) list"

text \<open>These are the values a handler sees in a parsed body. A number is the double the
  body parser made of the literal (rounded by then), which is a rational, or, for a literal
  beyond the range of doubles, \<^verbatim>\<open>Infinity\<close> (\<open>JInfinity True\<close>) or \<^verbatim>\<open>-Infinity\<close>
  (\<open>JInfinity False\<close>). The handlers only test numbers against zero.

  \<^verbatim>\<open>!v\<close> for a JSON value or \<^verbatim>\<open>undefined\<close>: \<^verbatim>\<open>undefined\<close>, \<^verbatim>\<open>null\<close>,
  \<^verbatim>\<open>false\<close>, \<^verbatim>\<open>0\<close> and \<^verbatim>\<open>''\<close> are falsy, every other value is truthy.\<close>

fun falsy :: "json option \<Rightarrow> bool" where
  "falsy None = True"
| "falsy (Some JNull) = True"
| "falsy (Some (JBool b)) = (\<not> b)"
| "falsy (Some (JNum n)) = (n = 0)"
| "falsy (Some (JInfinity b)) = False"
| "falsy (Some (JStr s)) = (s = [])"
| "falsy (Some (JArr xs)) = False"
| "falsy (Some (JObj kvs)) = False"

text \<open>A body field that is absent, \<^verbatim>\<open>null\<close> or a string, the value \<^verbatim>\<open>!s\<close> for it,
  the SQL parameter that \<^verbatim>\<open>s ?? null\<close> binds (\<open>None\<close> is \<^verbatim>\<open>NULL\<close>), and the field as
  a JavaScript value.\<close>

datatype js_string = Undefined | Null | Str string

fun falsy_str :: "js_string \<Rightarrow> bool" where
  "falsy_str Undefined = True"
| "falsy_str Null = True"
| "falsy_str (Str s) = (s = [])"

fun or_null :: "js_string \<Rightarrow> string option" where
  "or_null Undefined = None"
| "or_null Null = None"
| "or_null (Str s) = Some s"

fun js_value :: "js_string \<Rightarrow> json option" where
  "js_value Undefined = None"
| "js_value Null = Some JNull"
| "js_value (Str s) = Some (JStr s)"

text \<open>\<^verbatim>\<open>v ?? d\<close>: the default replaces \<^verbatim>\<open>undefined\<close> and \<^verbatim>\<open>null\<close> only.\<close>

fun nullish_or :: "json option \<Rightarrow> json \<Rightarrow> json" where
  "nullish_or None d = d"
| "nullish_or (Some JNull) d = d"
| "nullish_or (Some v) d = v"

text \<open>\<^verbatim>\<open>JSON.stringify\<close> writes \<^verbatim>\<open>null\<close> for a number that is not finite, at any
  depth; every other value of a parsed body reads back as it was.\<close>

primrec written :: "json \<Rightarrow> json" where
  "written JNull = JNull"
| "written (JBool b) = JBool b"
| "written (JNum n) = JNum n"
| "written (JInfinity b) = JNull"
| "written (JStr s) = JStr s"
| "written (JArr xs) = JArr (map written xs)"
| "written (JObj kvs) = JObj (map (map_prod id written) kvs)"

datatype json_text = Stringified json

definition JSON_stringify :: "json \<Rightarrow> json_text" where
  "JSON_stringify v = Stringified (written v)"

fun JSON_parse :: "json_text \<Rightarrow> json" where
  "JSON_parse (Stringified v) = v"

subsection \<open>The schema\<close>

record users_row =
  u_id :: nat
  u_email :: string
  u_password_hash :: string
  u_created_at :: string

record workspaces_row =
  w_id :: string
  w_name :: string
  w_owner_id :: nat
  w_diagram_json :: json_text
  w_created_at :: string
  w_updated_at :: string

record workspace_members_row =
  m_user_id :: nat
  m_workspace_id :: string
  m_role :: string

record database =
  users :: "users_row list"
  workspaces :: "workspaces_row list"
  workspace_members :: "workspace_members_row list"

text \<open>A room of the socket.io registry is a set of sockets: the registry is the list of
  (room, socket) pairs, and joining a room twice adds nothing.\<close>

record server =
  db :: database
  rooms :: "(string \<times> nat) list"

subsection \<open>Requests, responses, emitted events\<close>

text \<open>\<^verbatim>\<open>req.session.userId\<close>; \<open>None\<close> when the cookie carries no user.\<close>

type_synonym session = "nat option"

record body =
  b_id :: js_string
  b_name :: js_string
  b_diagram :: "json option"

record credentials =
  c_email :: js_string
  c_password :: "json option"

text \<open>\<^verbatim>\<open>res.status(n).json(v)\<close>; \<^verbatim>\<open>res.json(v)\<close> alone has status 200. When a handler
  throws, express answers with the status 500 and its error page (\<open>Error_page 500\<close>).\<close>

datatype response = Response nat json | Error_page nat

text \<open>An object literal handed to \<^verbatim>\<open>emit\<close>: its properties in order, \<open>None\<close> for a
  property whose value is \<^verbatim>\<open>undefined\<close>. A delivery is the receiving socket, the event
  name and the payload.\<close>

type_synonym js_object = "(string \<times> json option) list"
type_synonym delivery = "nat \<times> string \<times> js_object"

definition error_body :: "string \<Rightarrow> json" where
  "error_body msg = JObj [(''error'', JStr msg)]"

definition requireAuth :: "session \<Rightarrow> bool" where
  "requireAuth sess = (case sess of None \<Rightarrow> False | Some u \<Rightarrow> u \<noteq> 0)"

definition unauthorized :: response where
  "unauthorized = Response 401 (error_body ''Unauthorized'')"

subsection \<open>POST /api/auth/login\<close>

text \<open>\<^verbatim>\<open>bcrypt.compareSync\<close> compares a string with a hash: that is the parameter
  \<open>compareSync\<close>. Called with a first argument that is not a string it throws
  (\<^verbatim>\<open>Illegal arguments\<close>), and the handler does not catch. The handler returns the session
  the response cookie carries and the response; it writes nothing to the database.\<close>

definition login ::
  "(string \<Rightarrow> string \<Rightarrow> bool) \<Rightarrow> credentials \<Rightarrow> session \<Rightarrow> database \<Rightarrow> session \<times> response" where
  "login compareSync creds sess d =
     (if falsy_str (c_email creds) \<or> falsy (c_password creds)
      then (sess, Response 400 (error_body ''Email and password required''))
      else case c_email creds of
          Str email \<Rightarrow>
            (case find (\<lambda>u. u_email u = email) (users d) of
               None \<Rightarrow> (sess, Response 401 (error_body ''Invalid credentials''))
             | Some user \<Rightarrow>
                 (case c_password creds of
                    Some (JStr password) \<Rightarrow>
                      if \<not> compareSync password (u_password_hash user)
                      then (sess, Response 401 (error_body ''Invalid credentials''))
                      else (Some (u_id user),
                            Response 200 (JObj [(''id'', JNum (of_nat (u_id user))),
                                                (''email'', JStr (u_email user))]))
                  | _ \<Rightarrow> (sess, Error_page 500)))
        | _ \<Rightarrow> (sess, Response 400 (error_body ''Email and password required'')))"

subsection \<open>The queries\<close>

text \<open>\<^verbatim>\<open>FROM workspaces w JOIN workspace_members m ON m.workspace_id = w.id WHERE m.user_id = ?\<close>\<close>

definition member_workspaces :: "nat \<Rightarrow> database \<Rightarrow> workspaces_row list" where
  "member_workspaces userId d =
     concat (map (\<lambda>w. map (\<lambda>m. w)
                    (filter (\<lambda>m. m_workspace_id m = w_id w \<and> m_user_id m = userId)
                       (workspace_members d)))
               (workspaces d))"

text \<open>The same join with \<^verbatim>\<open>WHERE w.id = ? AND m.user_id = ?\<close>.\<close>

definition member_workspace :: "string \<Rightarrow> nat \<Rightarrow> database \<Rightarrow> workspaces_row list" where
  "member_workspace i userId d = filter (\<lambda>w. w_id w = i) (member_workspaces userId d)"

text \<open>\<^verbatim>\<open>ORDER BY w.updated_at DESC\<close>: the greatest stamp first, and rows with equal
  stamps in the order in which the join yields them (\<open>sort_key\<close> is stable, so the two
  reversals keep that order).\<close>

definition order_by_updated_at_desc :: "workspaces_row list \<Rightarrow> workspaces_row list" where
  "order_by_updated_at_desc rows = rev (sort_key w_updated_at (rev rows))"

subsection \<open>GET /api/workspaces\<close>

text \<open>The rows go out as the query returns them, keyed by column name.\<close>

definition list_row :: "workspaces_row \<Rightarrow> json" where
  "list_row w = JObj [(''id'', JStr (w_id w)), (''name'', JStr (w_name w)),
                      (''updated_at'', JStr (w_updated_at w))]"

definition get_workspaces :: "session \<Rightarrow> database \<Rightarrow> response" where
  "get_workspaces sess d =
     (case sess of
        None \<Rightarrow> unauthorized
      | Some userId \<Rightarrow>
          if \<not> requireAuth sess then unauthorized
          else Response 200
                 (JArr (map list_row (order_by_updated_at_desc (member_workspaces userId d)))))"

subsection \<open>GET /api/workspaces/:id\<close>

definition not_found :: response where
  "not_found = Response 404 (error_body ''Not found'')"

definition get_workspace :: "session \<Rightarrow> string \<Rightarrow> database \<Rightarrow> response" where
  "get_workspace sess i d =
     (case sess of
        None \<Rightarrow> unauthorized
      | Some userId \<Rightarrow>
          if \<not> requireAuth sess then unauthorized
          else case member_workspace i userId d of
              [] \<Rightarrow> not_found
            | w # _ \<Rightarrow>
                Response 200 (JObj [(''id'', JStr (w_id w)), (''name'', JStr (w_name w)),
                                    (''diagram'', JSON_parse (w_diagram_json w)),
                                    (''updatedAt'', JStr (w_updated_at w))]))"

subsection \<open>POST /api/workspaces\<close>

text \<open>A statement either runs, or fails on a uniqueness constraint (the message holds
  \<^verbatim>\<open>UNIQUE\<close>), or fails otherwise (disk, lock, foreign key: any other message). The last
  case is decided outside the program: it is the flag \<open>fails\<close> of each statement.\<close>

datatype sql_error = UNIQUE_constraint_failed | Other_failure

record create_env =
  datetime_now :: string
  insert_workspace_fails :: bool
  insert_member_fails :: bool

text \<open>\<^verbatim>\<open>INSERT INTO workspaces (id, name, owner_id, diagram_json) VALUES (?, ?, ?, ?)\<close>:
  \<^verbatim>\<open>id\<close> is the primary key; \<^verbatim>\<open>created_at\<close> and \<^verbatim>\<open>updated_at\<close> take their default
  \<^verbatim>\<open>datetime('now')\<close>.\<close>

definition insert_workspace ::
  "bool \<Rightarrow> string \<Rightarrow> string \<Rightarrow> string \<Rightarrow> nat \<Rightarrow> json_text \<Rightarrow> database \<Rightarrow> sql_error + database" where
  "insert_workspace fails stamp i n owner txt d =
     (if fails then Inl Other_failure
      else if \<exists>w \<in> set (workspaces d). w_id w = i then Inl UNIQUE_constraint_failed
      else Inr (d\<lparr>workspaces := workspaces d @
                  [\<lparr>w_id = i, w_name = n, w_owner_id = owner, w_diagram_json = txt,
                    w_created_at = stamp, w_updated_at = stamp\<rparr>]\<rparr>))"

text \<open>\<^verbatim>\<open>INSERT INTO workspace_members (user_id, workspace_id, role) VALUES (?, ?, ?)\<close>:
  the primary key is the pair \<^verbatim>\<open>(user_id, workspace_id)\<close>.\<close>

definition insert_member ::
  "bool \<Rightarrow> nat \<Rightarrow> string \<Rightarrow> string \<Rightarrow> database \<Rightarrow> sql_error + database" where
  "insert_member fails userId i role d =
     (if fails then Inl Other_failure
      else if \<exists>m \<in> set (workspace_members d). m_user_id m = userId \<and> m_workspace_id m = i
      then Inl UNIQUE_constraint_failed
      else Inr (d\<lparr>workspace_members := workspace_members d @
                  [\<lparr>m_user_id = userId, m_workspace_id = i, m_role = role\<rparr>]\<rparr>))"

text \<open>The \<^verbatim>\<open>catch\<close> block of the handler.\<close>

fun create_failed :: "sql_error \<Rightarrow> response" where
  "create_failed UNIQUE_constraint_failed = Response 409 (error_body ''Workspace already exists'')"
| "create_failed Other_failure = Response 500 (error_body ''Failed to create workspace'')"

text \<open>The two inserts are two statements: what the first wrote stays when the second
  throws.\<close>

definition post_workspaces :: "create_env \<Rightarrow> session \<Rightarrow> body \<Rightarrow> database \<Rightarrow> database \<times> response" where
  "post_workspaces env sess b d =
     (case sess of
        None \<Rightarrow> (d, unauthorized)
      | Some userId \<Rightarrow>
          if \<not> requireAuth sess then (d, unauthorized)
          else if falsy_str (b_id b) \<or> falsy_str (b_name b)
          then (d, Response 400 (error_body ''id and name required''))
          else case (b_id b, b_name b) of
              (Str i, Str n) \<Rightarrow>
                (case insert_workspace (insert_workspace_fails env) (datetime_now env) i n userId
                        (JSON_stringify (nullish_or (b_diagram b) (JObj []))) d of
                   Inl e \<Rightarrow> (d, create_failed e)
                 | Inr d1 \<Rightarrow>
                     (case insert_member (insert_member_fails env) userId i ''owner'' d1 of
                        Inl e \<Rightarrow> (d1, create_failed e)
                      | Inr d2 \<Rightarrow> (d2, Response 200 (JObj [(''id'', JStr i), (''name'', JStr n)]))))
            | _ \<Rightarrow> (d, Response 400 (error_body ''id and name required'')))"

subsection \<open>The room registry\<close>

text \<open>\<^verbatim>\<open>`ws:${id}`\<close>\<close>

definition room_of :: "string \<Rightarrow> string" where
  "room_of i = ''ws:'' @ i"

definition sockets_in :: "string \<Rightarrow> (string \<times> nat) list \<Rightarrow> nat list" where
  "sockets_in room reg = map snd (filter (\<lambda>p. fst p = room) reg)"

text \<open>\<^verbatim>\<open>socket.on('workspace:join', ...)\<close> and \<^verbatim>\<open>socket.on('workspace:leave', ...)\<close>\<close>

definition workspace_join :: "nat \<Rightarrow> string \<Rightarrow> server \<Rightarrow> server" where
  "workspace_join socket workspaceId s =
     (if (room_of workspaceId, socket) \<in> set (rooms s) then s
      else s\<lparr>rooms := rooms s @ [(room_of workspaceId, socket)]\<rparr>)"

definition workspace_leave :: "nat \<Rightarrow> string \<Rightarrow> server \<Rightarrow> server" where
  "workspace_leave socket workspaceId s =
     s\<lparr>rooms := filter (\<lambda>p. p \<noteq> (room_of workspaceId, socket)) (rooms s)\<rparr>"

text \<open>\<^verbatim>\<open>io.to(room).emit(ev, payload)\<close> reaches every socket of the room;
  \<^verbatim>\<open>socket.to(room).emit(ev, payload)\<close> every socket of the room but the sender.\<close>

definition io_to_emit :: "string \<Rightarrow> string \<Rightarrow> js_object \<Rightarrow> (string \<times> nat) list \<Rightarrow> delivery list" where
  "io_to_emit room ev payload reg = map (\<lambda>c. (c, ev, payload)) (sockets_in room reg)"

definition socket_to_emit ::
  "nat \<Rightarrow> string \<Rightarrow> string \<Rightarrow> js_object \<Rightarrow> (string \<times> nat) list \<Rightarrow> delivery list" where
  "socket_to_emit socket room ev payload reg =
     map (\<lambda>c. (c, ev, payload)) (filter (\<lambda>c. c \<noteq> socket) (sockets_in room reg))"

subsection \<open>PUT /api/workspaces/:id\<close>

text \<open>\<^verbatim>\<open>COALESCE(?, column)\<close>: the parameter unless it is \<^verbatim>\<open>NULL\<close>.\<close>

fun COALESCE :: "'a option \<Rightarrow> 'a \<Rightarrow> 'a" where
  "COALESCE None x = x"
| "COALESCE (Some p) x = p"

text \<open>\<^verbatim>\<open>UPDATE workspaces SET name = COALESCE(?, name), diagram_json = COALESCE(?, diagram_json),
  updated_at = ? WHERE id = ?\<close>\<close>

definition update_workspace ::
  "string option \<Rightarrow> json_text option \<Rightarrow> string \<Rightarrow> string \<Rightarrow> database \<Rightarrow> database" where
  "update_workspace n txt now i d =
     d\<lparr>workspaces :=
         map (\<lambda>w. if w_id w = i
                  then w\<lparr>w_name := COALESCE n (w_name w),
                         w_diagram_json := COALESCE txt (w_diagram_json w),
                         w_updated_at := now\<rparr>
                  else w)
           (workspaces d)\<rparr>"

text \<open>\<open>now\<close> is \<^verbatim>\<open>new Date().toISOString()\<close>. The handler returns the new state, the
  response and what the broadcast delivers.\<close>

definition put_workspace ::
  "string \<Rightarrow> session \<Rightarrow> string \<Rightarrow> body \<Rightarrow> server \<Rightarrow> server \<times> response \<times> delivery list" where
  "put_workspace now sess i b s =
     (case sess of
        None \<Rightarrow> (s, unauthorized, [])
      | Some userId \<Rightarrow>
          if \<not> requireAuth sess then (s, unauthorized, [])
          else if member_workspace i userId (db s) = [] then (s, not_found, [])
          else
            (s\<lparr>db := update_workspace (or_null (b_name b))
                      (if falsy (b_diagram b) then None
                       else map_option JSON_stringify (b_diagram b))
                      now i (db s)\<rparr>,
             Response 200 (JObj [(''ok'', JBool True), (''updatedAt'', JStr now)]),
             io_to_emit (room_of i) ''workspace:update''
               [(''id'', Some (JStr i)), (''name'', js_value (b_name b)),
                (''diagram'', b_diagram b), (''updatedAt'', Some (JStr now))]
               (rooms s)))"

subsection \<open>The relay: socket.on('workspace:update', ...)\<close>

record patch_message =
  p_id :: string
  p_patch :: "json option"

definition workspace_update :: "nat \<Rightarrow> patch_message \<Rightarrow> server \<Rightarrow> server \<times> delivery list" where
  "workspace_update socket msg s =
     (s, socket_to_emit socket (room_of (p_id msg)) ''workspace:patch''
           [(''id'', Some (JStr (p_id msg))), (''patch'', p_patch msg)] (rooms s))"

subsection \<open>Runs of the server\<close>

text \<open>What reaches the server and changes its state. The reading handlers
  (\<open>get_workspaces\<close>, \<open>get_workspace\<close>, \<open>login\<close>) and the relay change nothing.\<close>

datatype event =
    POST_workspaces create_env session body
  | PUT_workspace string session string body
  | Workspace_join nat string
  | Workspace_leave nat string
  | Workspace_update nat patch_message

fun step :: "event \<Rightarrow> server \<Rightarrow> server" where
  "step (POST_workspaces env sess b) s = s\<lparr>db := fst (post_workspaces env sess b (db s))\<rparr>"
| "step (PUT_workspace now sess i b) s = fst (put_workspace now sess i b s)"
| "step (Workspace_join socket i) s = workspace_join socket i s"
| "step (Workspace_leave socket i) s = workspace_leave socket i s"
| "step (Workspace_update socket msg) s = fst (workspace_update socket msg s)"

text \<open>The server starts with empty workspace tables and no socket in any room; the
  \<^verbatim>\<open>users\<close> table is any.\<close>

definition start :: "users_row list \<Rightarrow> server" where
  "start us = \<lparr>db = \<lparr>users = us, workspaces = [], workspace_members = []\<rparr>, rooms = []\<rparr>"

definition run :: "event list \<Rightarrow> server \<Rightarrow> server" where
  "run evs s = foldl (\<lambda>s e. step e s) s evs"

subsection \<open>What the tables and the registry satisfy along every run\<close>

text \<open>The primary keys are unique, and a membership row names a workspace that exists
  (the handler inserts it after the workspace row, and nothing deletes a row).\<close>

definition db_ok :: "database \<Rightarrow> bool" where
  "db_ok d \<longleftrightarrow>
     distinct (map w_id (workspaces d)) \<and>
     distinct (map (\<lambda>m. (m_user_id m, m_workspace_id m)) (workspace_members d)) \<and>
     (\<forall>m \<in> set (workspace_members d). m_workspace_id m \<in> w_id ` set (workspaces d))"

definition server_ok :: "server \<Rightarrow> bool" where
  "server_ok s \<longleftrightarrow> db_ok (db s) \<and> distinct (rooms s)"

subsection \<open>A small run, used to evaluate the handlers\<close>

text \<open>User 2 creates workspace \<^verbatim>\<open>w1\<close> with a diagram, user 3 creates \<^verbatim>\<open>w2\<close> without
  one; sockets 7 and 8 join the room of \<^verbatim>\<open>w1\<close>, socket 9 the room of \<^verbatim>\<open>w2\<close>.\<close>

definition env_day1 :: create_env where
  "env_day1 = \<lparr>datetime_now = ''2024-05-01 10:00:00'',
               insert_workspace_fails = False, insert_member_fails = False\<rparr>"

definition env_day2 :: create_env where
  "env_day2 = \<lparr>datetime_now = ''2024-05-02 09:30:00'',
               insert_workspace_fails = False, insert_member_fails = False\<rparr>"

definition env_member_fails :: create_env where
  "env_member_fails = \<lparr>datetime_now = ''2024-05-01 10:00:00'',
                       insert_workspace_fails = False, insert_member_fails = True\<rparr>"

definition body_shop :: body where
  "body_shop = \<lparr>b_id = Str ''w1'', b_name = Str ''Shop'',
                b_diagram = Some (JObj [(''tables'', JArr [])])\<rparr>"

definition body_blog :: body where
  "body_blog = \<lparr>b_id = Str ''w2'', b_name = Str ''Blog'', b_diagram = None\<rparr>"

definition body_rename :: body where
  "body_rename = \<lparr>b_id = Undefined, b_name = Str ''Store'', b_diagram = None\<rparr>"

definition body_null_name :: body where
  "body_null_name = \<lparr>b_id = Undefined, b_name = Null,
                     b_diagram = Some (JObj [(''tables'', JArr [JStr ''t1''])])\<rparr>"

definition body_zero :: body where
  "body_zero = \<lparr>b_id = Undefined, b_name = Undefined, b_diagram = Some (JNum 0)\<rparr>"

definition example_events :: "event list" where
  "example_events =
     [POST_workspaces env_day1 (Some 2) body_shop, POST_workspaces env_day2 (Some 3) body_blog,
      Workspace_join 7 ''w1'', Workspace_join 8 ''w1'', Workspace_join 9 ''w2'']"

definition shop_row :: workspaces_row where
  "shop_row = \<lparr>w_id = ''w1'', w_name = ''Shop'', w_owner_id = 2,
               w_diagram_json = Stringified (JObj [(''tables'', JArr [])]),
               w_created_at = ''2024-05-01 10:00:00'', w_updated_at = ''2024-05-01 10:00:00''\<rparr>"

definition blog_row :: workspaces_row where
  "blog_row = \<lparr>w_id = ''w2'', w_name = ''Blog'', w_owner_id = 3,
               w_diagram_json = Stringified (JObj []),
               w_created_at = ''2024-05-02 09:30:00'', w_updated_at = ''2024-05-02 09:30:00''\<rparr>"

definition example_server :: server where
  "example_server =
     \<lparr>db = \<lparr>users = [], workspaces = [shop_row, blog_row],
             workspace_members =
               [\<lparr>m_user_id = 2, m_workspace_id = ''w1'', m_role = ''owner''\<rparr>,
                \<lparr>m_user_id = 3, m_workspace_id = ''w2'', m_role = ''owner''\<rparr>]\<rparr>,
      rooms = [(''ws:w1'', 7), (''ws:w1'', 8), (''ws:w2'', 9)]\<rparr>"

definition now_day3 :: string where
  "now_day3 = ''2024-05-03T08:00:00.000Z''"

text \<open>The example after user 2 has renamed \<^verbatim>\<open>w1\<close> at \<open>now_day3\<close>.\<close>

definition example_server_renamed :: server where
  "example_server_renamed =
     example_server\<lparr>db := (db example_server)\<lparr>workspaces :=
         [shop_row\<lparr>w_name := ''Store'', w_updated_at := now_day3\<rparr>, blog_row]\<rparr>\<rparr>"

text \<open>One registered user, and a stand-in for \<^verbatim>\<open>bcrypt.compareSync\<close>.\<close>

definition example_users :: database where
  "example_users =
     \<lparr>users = [\<lparr>u_id = 2, u_email = ''a@x.com'', u_password_hash = ''hash:pw'',
                 u_created_at = ''2024-05-01 09:00:00''\<rparr>],
      workspaces = [], workspace_members = []\<rparr>"

definition example_compareSync :: "string \<Rightarrow> string \<Rightarrow> bool" where
  "example_compareSync password hash \<longleftrightarrow> hash = ''hash:'' @ password"

section \<open>Lemmas\<close>

subsection \<open>The join, and what every run preserves\<close>

lemma set_member_workspaces:
  "set (member_workspaces u d) =
     {w \<in> set (workspaces d). \<exists>m \<in> set (workspace_members d). m_workspace_id m = w_id w \<and> m_user_id m = u}"
  by (auto simp: member_workspaces_def)

lemma set_member_workspace:
  "set (member_workspace i u d) =
     {w \<in> set (workspaces d). w_id w = i \<and> (\<exists>m \<in> set (workspace_members d). m_workspace_id m = i \<and> m_user_id m = u)}"
  by (auto simp: member_workspace_def set_member_workspaces)

lemma member_workspace_empty_iff:
  "member_workspace i u d = [] \<longleftrightarrow>
     \<not> (\<exists>w \<in> set (workspaces d). w_id w = i \<and>
          (\<exists>m \<in> set (workspace_members d). m_workspace_id m = i \<and> m_user_id m = u))"
  using set_member_workspace[of i u d] by (auto simp flip: set_empty)

lemma filter_key_single:
  "distinct (map f xs) \<Longrightarrow> x \<in> set xs \<Longrightarrow> filter (\<lambda>y. f y = f x) xs = [x]"
proof (induction xs)
  case Nil
  then show ?case by simp
next
  case (Cons a xs)
  show ?case
  proof (cases "a = x")
    case True
    with Cons.prems have "filter (\<lambda>y. f y = f x) xs = []"
      by (auto simp: filter_empty_conv) (metis imageI)
    with True show ?thesis by simp
  next
    case False
    with Cons.prems have "x \<in> set xs" "f a \<noteq> f x" by auto
    with Cons show ?thesis by simp
  qed
qed

lemma insert_workspace_rows:
  assumes "insert_workspace f t i n owner txt d = Inr d'"
  shows "d' = d\<lparr>workspaces := workspaces d @
                  [\<lparr>w_id = i, w_name = n, w_owner_id = owner, w_diagram_json = txt,
                    w_created_at = t, w_updated_at = t\<rparr>]\<rparr> \<and>
         \<not> f \<and> i \<notin> w_id ` set (workspaces d)"
  using assms by (auto simp: insert_workspace_def split: if_splits)

lemma insert_member_rows:
  assumes "insert_member f u i r d = Inr d'"
  shows "d' = d\<lparr>workspace_members := workspace_members d @
                  [\<lparr>m_user_id = u, m_workspace_id = i, m_role = r\<rparr>]\<rparr> \<and> \<not> f"
  using assms by (auto simp: insert_member_def split: if_splits)

lemma insert_workspace_Inl:
  assumes "insert_workspace f t i n owner txt d = Inl e"
  shows "(f \<and> e = Other_failure) \<or> (\<not> f \<and> e = UNIQUE_constraint_failed \<and> i \<in> w_id ` set (workspaces d))"
  using assms by (auto simp: insert_workspace_def split: if_splits)

lemma insert_member_Inl:
  assumes "insert_member f u i r d = Inl e"
  shows "(f \<and> e = Other_failure) \<or>
         (\<not> f \<and> e = UNIQUE_constraint_failed \<and>
          (\<exists>m \<in> set (workspace_members d). m_user_id m = u \<and> m_workspace_id m = i))"
  using assms by (auto simp: insert_member_def split: if_splits)

lemma insert_workspace_ok:
  "db_ok d \<Longrightarrow> insert_workspace f t i n owner txt d = Inr d' \<Longrightarrow> db_ok d'"
  by (auto simp: insert_workspace_def db_ok_def split: if_splits)

lemma insert_member_ok:
  "db_ok d \<Longrightarrow> i \<in> w_id ` set (workspaces d) \<Longrightarrow> insert_member f u i r d = Inr d' \<Longrightarrow> db_ok d'"
  by (fastforce simp: insert_member_def db_ok_def split: if_splits)

lemma insert_workspace_has:
  "insert_workspace f t i n owner txt d = Inr d' \<Longrightarrow> i \<in> w_id ` set (workspaces d')"
  by (auto simp: insert_workspace_def split: if_splits)

lemma insert_both_ok:
  "db_ok d \<Longrightarrow> insert_workspace f t i n owner txt d = Inr d1 \<Longrightarrow>
   insert_member f' u i r d1 = Inr d2 \<Longrightarrow> db_ok d2"
  by (blast intro: insert_workspace_ok insert_member_ok insert_workspace_has)

lemma post_workspaces_ok:
  "db_ok d \<Longrightarrow> db_ok (fst (post_workspaces env sess b d))"
  by (auto simp: post_workspaces_def split: option.splits sum.splits js_string.splits
      intro: insert_workspace_ok insert_both_ok)

lemma update_workspace_ids:
  "map w_id (workspaces (update_workspace n txt now i d)) = map w_id (workspaces d)"
  by (simp add: update_workspace_def comp_def)

lemma update_workspace_members:
  "workspace_members (update_workspace n txt now i d) = workspace_members d"
  by (simp add: update_workspace_def)

lemma update_workspace_ok: "db_ok d \<Longrightarrow> db_ok (update_workspace n txt now i d)"
proof -
  have "w_id ` set (workspaces (update_workspace n txt now i d)) = w_id ` set (workspaces d)"
    by (metis update_workspace_ids set_map)
  then show "db_ok d \<Longrightarrow> db_ok (update_workspace n txt now i d)"
    by (simp add: db_ok_def update_workspace_members update_workspace_ids)
qed

lemma step_ok: "server_ok s \<Longrightarrow> server_ok (step e s)"
  by (cases e)
    (auto simp: server_ok_def post_workspaces_ok put_workspace_def update_workspace_ok
      workspace_join_def workspace_leave_def workspace_update_def split: option.splits)

lemma run_ok: "server_ok s \<Longrightarrow> server_ok (run evs s)"
  unfolding run_def by (induction evs arbitrary: s) (simp_all add: step_ok)

lemma run_snoc: "run (evs @ [e]) s = step e (run evs s)"
  by (simp add: run_def)

lemma start_ok: "server_ok (start us)"
  by (simp add: server_ok_def db_ok_def start_def)

lemma reachable_ok: "server_ok (run evs (start us))"
  by (rule run_ok[OF start_ok])

lemma members_of_run:
  assumes "d = db (run evs (start us))" "m \<in> set (workspace_members d)"
  shows "m_workspace_id m \<in> w_id ` set (workspaces d)"
  using reachable_ok[of evs us] assms by (simp add: server_ok_def db_ok_def)

lemma member_of_run:
  assumes "s = run evs (start us)"
    and "\<exists>m \<in> set (workspace_members (db s)). m_user_id m = u \<and> m_workspace_id m = i"
  shows "member_workspace i u (db s) \<noteq> []"
proof -
  from assms(2) obtain m where m: "m \<in> set (workspace_members (db s))" "m_user_id m = u"
      "m_workspace_id m = i" by blast
  from members_of_run[OF _ m(1), of evs us] assms(1) m(3)
  obtain w where "w \<in> set (workspaces (db s))" "w_id w = i" by auto
  with m show ?thesis by (auto simp: member_workspace_empty_iff)
qed

subsection \<open>The handlers, case by case\<close>

lemma get_workspace_found:
  assumes "requireAuth (Some u)" "member_workspace i u d = w # ws"
  shows "get_workspace (Some u) i d =
           Response 200 (JObj [(''id'', JStr (w_id w)), (''name'', JStr (w_name w)),
                               (''diagram'', JSON_parse (w_diagram_json w)),
                               (''updatedAt'', JStr (w_updated_at w))])"
  using assms by (simp add: get_workspace_def)

lemma get_workspace_missing:
  assumes "requireAuth (Some u)" "member_workspace i u d = []"
  shows "get_workspace (Some u) i d = Response 404 (JObj [(''error'', JStr ''Not found'')])"
  using assms by (simp add: get_workspace_def not_found_def error_body_def)

lemma login_string_password:
  assumes "c_email creds = Str email" "c_password creds = Some (JStr password)"
    and "email \<noteq> []" "password \<noteq> []"
  shows "((\<forall>user \<in> set (users d). u_email user \<noteq> email) \<longrightarrow>
            login compareSync creds sess d =
              (sess, Response 401 (JObj [(''error'', JStr ''Invalid credentials'')]))) \<and>
         (\<forall>user. find (\<lambda>u. u_email u = email) (users d) = Some user \<and>
                 \<not> compareSync password (u_password_hash user) \<longrightarrow>
            login compareSync creds sess d =
              (sess, Response 401 (JObj [(''error'', JStr ''Invalid credentials'')])))"
proof (intro conjI impI allI)
  assume "\<forall>user \<in> set (users d). u_email user \<noteq> email"
  then have "find (\<lambda>u. u_email u = email) (users d) = None"
    by (simp add: find_None_iff)
  with assms show "login compareSync creds sess d =
              (sess, Response 401 (JObj [(''error'', JStr ''Invalid credentials'')]))"
    by (simp add: login_def error_body_def)
next
  fix user
  assume "find (\<lambda>u. u_email u = email) (users d) = Some user \<and>
                 \<not> compareSync password (u_password_hash user)"
  with assms show "login compareSync creds sess d =
              (sess, Response 401 (JObj [(''error'', JStr ''Invalid credentials'')]))"
    by (simp add: login_def error_body_def)
qed

lemma post_workspaces_rejected:
  assumes "\<not> (\<exists>u i n. sess = Some u \<and> u \<noteq> 0 \<and> b_id b = Str i \<and> b_name b = Str n \<and> i \<noteq> [] \<and> n \<noteq> [])"
  shows "\<exists>v. post_workspaces env sess b d = (d, Response 401 v) \<or>
             post_workspaces env sess b d = (d, Response 400 v)"
proof (cases sess)
  case None
  then show ?thesis by (simp add: post_workspaces_def unauthorized_def)
next
  case (Some u)
  show ?thesis
  proof (cases "u = 0")
    case True
    with Some show ?thesis by (simp add: post_workspaces_def unauthorized_def requireAuth_def)
  next
    case False
    with Some assms have "falsy_str (b_id b) \<or> falsy_str (b_name b)"
      by (cases "b_id b"; cases "b_name b") auto
    with Some False show ?thesis by (auto simp: post_workspaces_def requireAuth_def)
  qed
qed

lemma post_workspaces_accepted:
  assumes "u \<noteq> 0" "b_id b = Str i" "b_name b = Str n" "i \<noteq> []" "n \<noteq> []"
  shows "post_workspaces env (Some u) b d =
     (case insert_workspace (insert_workspace_fails env) (datetime_now env) i n u
                        (JSON_stringify (nullish_or (b_diagram b) (JObj []))) d of
                   Inl e \<Rightarrow> (d, create_failed e)
                 | Inr d1 \<Rightarrow>
                     (case insert_member (insert_member_fails env) u i ''owner'' d1 of
                        Inl e \<Rightarrow> (d1, create_failed e)
                      | Inr d2 \<Rightarrow> (d2, Response 200 (JObj [(''id'', JStr i), (''name'', JStr n)]))))"
  using assms by (simp add: post_workspaces_def requireAuth_def)

lemma post_workspaces_existing:
  assumes "requireAuth sess" "b_id b = Str i" "i \<noteq> []" "\<not> falsy_str (b_name b)"
    "\<not> insert_workspace_fails env" "i \<in> w_id ` set (workspaces d)"
  shows "post_workspaces env sess b d =
           (d, Response 409 (JObj [(''error'', JStr ''Workspace already exists'')]))"
proof -
  from assms(1) obtain u where u: "sess = Some u" "u \<noteq> 0"
    by (cases sess) (auto simp: requireAuth_def)
  from assms(4) obtain n where n: "b_name b = Str n" "n \<noteq> []"
    by (cases "b_name b") auto
  from assms(5,6) have "insert_workspace (insert_workspace_fails env) (datetime_now env) i n u
                  (JSON_stringify (nullish_or (b_diagram b) (JObj []))) d = Inl UNIQUE_constraint_failed"
    by (auto simp: insert_workspace_def)
  with post_workspaces_accepted[OF u(2) assms(2) n(1) assms(3) n(2), of env d] u
  show ?thesis by (simp add: error_body_def)
qed

lemma post_workspaces_leaves_id:
  assumes "requireAuth sess" "b_id b = Str i" "i \<noteq> []" "\<not> falsy_str (b_name b)"
    "\<not> insert_workspace_fails env"
  shows "i \<in> w_id ` set (workspaces (fst (post_workspaces env sess b d)))"
proof -
  from assms(1) obtain u where u: "sess = Some u" "u \<noteq> 0"
    by (cases sess) (auto simp: requireAuth_def)
  from assms(4) obtain n where n: "b_name b = Str n" "n \<noteq> []"
    by (cases "b_name b") auto
  note acc = post_workspaces_accepted[OF u(2) assms(2) n(1) assms(3) n(2), of env d]
  show ?thesis
  proof (cases "insert_workspace (insert_workspace_fails env) (datetime_now env) i n u
                  (JSON_stringify (nullish_or (b_diagram b) (JObj []))) d")
    case (Inl e)
    with insert_workspace_Inl[OF Inl] assms(5) acc u show ?thesis by simp
  next
    case (Inr d1)
    note d1 = insert_workspace_rows[OF Inr]
    show ?thesis
    proof (cases "insert_member (insert_member_fails env) u i ''owner'' d1")
      case (Inl e)
      with acc u d1 \<open>insert_workspace _ _ _ _ _ _ _ = Inr d1\<close> show ?thesis by simp
    next
      case (Inr d2)
      with acc u d1 insert_member_rows[OF Inr] \<open>insert_workspace _ _ _ _ _ _ _ = Inr d1\<close>
      show ?thesis by simp
    qed
  qed
qed

lemma put_workspace_200:
  assumes "put_workspace now sess i b s = (s', Response 200 v, out)"
  shows "\<exists>u. sess = Some u \<and> requireAuth sess \<and> member_workspace i u (db s) \<noteq> [] \<and>
           s' = s\<lparr>db := update_workspace (or_null (b_name b))
                      (if falsy (b_diagram b) then None else map_option JSON_stringify (b_diagram b))
                      now i (db s)\<rparr> \<and>
           v = JObj [(''ok'', JBool True), (''updatedAt'', JStr now)] \<and>
           out = io_to_emit (room_of i) ''workspace:update''
                   [(''id'', Some (JStr i)), (''name'', js_value (b_name b)),
                    (''diagram'', b_diagram b), (''updatedAt'', Some (JStr now))] (rooms s)"
  using assms
  by (auto simp: put_workspace_def unauthorized_def not_found_def split: option.splits if_splits)

lemma put_workspace_member:
  assumes "requireAuth (Some u)" "member_workspace i u (db s) \<noteq> []"
  shows "put_workspace now (Some u) i b s =
          (s\<lparr>db := update_workspace (or_null (b_name b))
                      (if falsy (b_diagram b) then None else map_option JSON_stringify (b_diagram b))
                      now i (db s)\<rparr>,
           Response 200 (JObj [(''ok'', JBool True), (''updatedAt'', JStr now)]),
           io_to_emit (room_of i) ''workspace:update''
                   [(''id'', Some (JStr i)), (''name'', js_value (b_name b)),
                    (''diagram'', b_diagram b), (''updatedAt'', Some (JStr now))] (rooms s))"
  using assms by (simp add: put_workspace_def)

lemma put_workspace_falsy_as_absent:
  assumes "falsy (b_diagram b)"
  shows "fst (put_workspace now sess i b s) = fst (put_workspace now sess i (b\<lparr>b_diagram := None\<rparr>) s)"
  using assms by (simp add: put_workspace_def split: option.splits)

lemma update_workspace_row:
  assumes "w' \<in> set (workspaces (update_workspace n t now i d))"
  obtains w where "w \<in> set (workspaces d)" 
    "w' = (if w_id w = i then w\<lparr>w_name := COALESCE n (w_name w),
                         w_diagram_json := COALESCE t (w_diagram_json w),
                         w_updated_at := now\<rparr> else w)"
proof -
  from assms have "w' \<in> (\<lambda>w. if w_id w = i then w\<lparr>w_name := COALESCE n (w_name w),
                         w_diagram_json := COALESCE t (w_diagram_json w),
                         w_updated_at := now\<rparr> else w) ` set (workspaces d)"
    by (simp add: update_workspace_def)
  then show thesis using that by blast
qed

lemma update_workspace_stamped:
  assumes "w' \<in> set (workspaces (update_workspace n t now i d))" "w_id w' = i"
  shows "w_updated_at w' = now"
proof -
  from assms(1) obtain w where w: "w \<in> set (workspaces d)" 
    "w' = (if w_id w = i then w\<lparr>w_name := COALESCE n (w_name w),
                         w_diagram_json := COALESCE t (w_diagram_json w),
                         w_updated_at := now\<rparr> else w)"
    by (rule update_workspace_row)
  show ?thesis
  proof (cases "w_id w = i")
    case True
    with w(2) show ?thesis by simp
  next
    case False
    with w(2) assms(2) show ?thesis by simp
  qed
qed

lemma update_workspace_frame:
  "list_all2 (\<lambda>w w'. w_id w' = w_id w \<and> w_owner_id w' = w_owner_id w \<and>
                     w_created_at w' = w_created_at w \<and>
                     (w_id w \<noteq> i \<longrightarrow> w' = w) \<and>
                     (w_id w = i \<longrightarrow> w_name w' = COALESCE n (w_name w) \<and>
                        w_diagram_json w' = COALESCE t (w_diagram_json w)))
     (workspaces d) (workspaces (update_workspace n t now i d))"
  unfolding update_workspace_def
  by (simp add: list_all2_map2 list_all2_same)

lemma update_workspace_others:
  "users (update_workspace n t now i d) = users d \<and>
   workspace_members (update_workspace n t now i d) = workspace_members d"
  by (simp add: update_workspace_def)

lemma update_workspace_keeps_diagrams:
  "map w_diagram_json (workspaces (update_workspace n None now i d)) =
     map w_diagram_json (workspaces d)"
  by (simp add: update_workspace_def comp_def if_distrib)

subsection \<open>Deliveries\<close>

lemma distinct_sockets_in: "distinct reg \<Longrightarrow> distinct (sockets_in room reg)"
  unfolding sockets_in_def
  by (induction reg) (auto simp: image_iff)

lemma set_sockets_in: "set (sockets_in room reg) = {c. (room, c) \<in> set reg}"
  unfolding sockets_in_def by force

lemma filter_eq_distinct:
  "distinct xs \<Longrightarrow> filter (\<lambda>x. x = c) xs = (if c \<in> set xs then [c] else [])"
  by (induction xs) auto

lemma deliveries_to_map:
  "filter (\<lambda>d. fst d = c) (map (\<lambda>c. (c, ev, p)) xs) = map (\<lambda>c. (c, ev, p)) (filter (\<lambda>x. x = c) xs)"
  by (induction xs) auto

lemma io_to_emit_deliveries:
  assumes "distinct reg"
  shows "filter (\<lambda>d. fst d = c) (io_to_emit room ev p reg) =
           (if (room, c) \<in> set reg then [(c, ev, p)] else [])"
  using filter_eq_distinct[OF distinct_sockets_in[OF assms], of c room]
  by (simp add: io_to_emit_def deliveries_to_map set_sockets_in)

lemma socket_to_emit_deliveries:
  assumes "distinct reg"
  shows "filter (\<lambda>d. fst d = c) (socket_to_emit sender room ev p reg) =
           (if (room, c) \<in> set reg \<and> c \<noteq> sender then [(c, ev, p)] else [])"
proof -
  have "distinct (filter (\<lambda>c. c \<noteq> sender) (sockets_in room reg))"
    using distinct_sockets_in[OF assms] by simp
  from filter_eq_distinct[OF this, of c] show ?thesis
    by (simp add: socket_to_emit_def deliveries_to_map set_sockets_in)
qed

subsection \<open>The list: the member workspaces, latest stamp first\<close>

lemma sorted_desc_order_by:
  "sorted (rev (map w_updated_at (order_by_updated_at_desc rows)))"
  by (simp add: order_by_updated_at_desc_def rev_map)

lemma get_workspaces_members_sorted:
  assumes "requireAuth (Some u)"
  shows "\<exists>rows. get_workspaces (Some u) d = Response 200 (JArr (map list_row rows)) \<and>
           set rows = {w \<in> set (workspaces d).
                        \<exists>m \<in> set (workspace_members d). m_workspace_id m = w_id w \<and> m_user_id m = u} \<and>
           sorted (rev (map w_updated_at rows))"
proof -
  have "set (order_by_updated_at_desc (member_workspaces u d)) = set (member_workspaces u d)"
    by (simp add: order_by_updated_at_desc_def)
  with assms sorted_desc_order_by[of "member_workspaces u d"] show ?thesis
    by (auto simp: get_workspaces_def set_member_workspaces)
qed

subsection \<open>The example run\<close>

lemma example_server_run: "example_server = run example_events (start [])"
  by (simp add: example_server_def example_events_def run_def start_def post_workspaces_def
      requireAuth_def insert_workspace_def insert_member_def JSON_stringify_def
      env_day1_def env_day2_def body_shop_def body_blog_def shop_row_def blog_row_def
      workspace_join_def room_of_def)

lemmas example_defs =
  example_server_def shop_row_def blog_row_def body_rename_def body_zero_def body_shop_def
  body_blog_def now_day3_def env_day1_def env_day2_def

lemma example_auth: "requireAuth (Some 2)"
  by (simp add: requireAuth_def)

lemma example_put_rename:
  "put_workspace now_day3 (Some 2) ''w1'' body_rename example_server =
     (example_server\<lparr>db := (db example_server)\<lparr>workspaces :=
         [shop_row\<lparr>w_name := ''Store'', w_updated_at := now_day3\<rparr>, blog_row]\<rparr>\<rparr>,
      Response 200 (JObj [(''ok'', JBool True), (''updatedAt'', JStr now_day3)]),
      [(7, ''workspace:update'',
         [(''id'', Some (JStr ''w1'')), (''name'', Some (JStr ''Store'')), (''diagram'', None),
          (''updatedAt'', Some (JStr now_day3))]),
       (8, ''workspace:update'',
         [(''id'', Some (JStr ''w1'')), (''name'', Some (JStr ''Store'')), (''diagram'', None),
          (''updatedAt'', Some (JStr now_day3))])])"
  by (simp add: put_workspace_def requireAuth_def member_workspace_def member_workspaces_def
      example_defs update_workspace_def io_to_emit_def sockets_in_def room_of_def)

lemma example_put_zero:
  "put_workspace now_day3 (Some 2) ''w1'' body_zero example_server =
     (example_server\<lparr>db := (db example_server)\<lparr>workspaces :=
         [shop_row\<lparr>w_updated_at := now_day3\<rparr>, blog_row]\<rparr>\<rparr>,
      Response 200 (JObj [(''ok'', JBool True), (''updatedAt'', JStr now_day3)]),
      [(7, ''workspace:update'',
         [(''id'', Some (JStr ''w1'')), (''name'', None), (''diagram'', Some (JNum 0)),
          (''updatedAt'', Some (JStr now_day3))]),
       (8, ''workspace:update'',
         [(''id'', Some (JStr ''w1'')), (''name'', None), (''diagram'', Some (JNum 0)),
          (''updatedAt'', Some (JStr now_day3))])])"
  by (simp add: put_workspace_def requireAuth_def member_workspace_def member_workspaces_def
      example_defs update_workspace_def io_to_emit_def sockets_in_def room_of_def)

lemma example_put_null_name:
  "put_workspace now_day3 (Some 2) ''w1'' body_null_name example_server =
     (example_server\<lparr>db := (db example_server)\<lparr>workspaces :=
         [shop_row\<lparr>w_diagram_json := Stringified (JObj [(''tables'', JArr [JStr ''t1''])]),
                   w_updated_at := now_day3\<rparr>, blog_row]\<rparr>\<rparr>,
      Response 200 (JObj [(''ok'', JBool True), (''updatedAt'', JStr now_day3)]),
      [(7, ''workspace:update'',
         [(''id'', Some (JStr ''w1'')), (''name'', Some JNull),
          (''diagram'', Some (JObj [(''tables'', JArr [JStr ''t1''])])),
          (''updatedAt'', Some (JStr now_day3))]),
       (8, ''workspace:update'',
         [(''id'', Some (JStr ''w1'')), (''name'', Some JNull),
          (''diagram'', Some (JObj [(''tables'', JArr [JStr ''t1''])])),
          (''updatedAt'', Some (JStr now_day3))])])"
  by (simp add: put_workspace_def requireAuth_def member_workspace_def member_workspaces_def
      example_defs body_null_name_def update_workspace_def io_to_emit_def sockets_in_def
      room_of_def JSON_stringify_def)

lemma example_member_row:
  "\<exists>m \<in> set (workspace_members (db example_server)). m_user_id m = 2 \<and> m_workspace_id m = ''w1''"
  by (simp add: example_server_def)

section \<open>The claims\<close>

text \<open>
  Claim C1. In every state the server reaches, and for every authenticated principal \<open>u\<close>
  and workspace id \<open>i\<close>: if a membership row \<open>(u, i)\<close> exists, the table holds exactly one
  workspace row with that id and \<^verbatim>\<open>GET /api/workspaces/:id\<close> answers 200 with its id, name,
  parsed diagram and \<^verbatim>\<open>updatedAt\<close>; if no such row exists, whether or not the workspace
  itself exists, it answers the one response 404 \<^verbatim>\<open>{error: 'Not found'}\<close>.
\<close>

theorem get_workspace_iff_membership:
  assumes "requireAuth (Some u)" and "d = db (run evs (start us))"
  shows "((\<exists>m \<in> set (workspace_members d). m_user_id m = u \<and> m_workspace_id m = i) \<longrightarrow>
            (\<exists>w. filter (\<lambda>w. w_id w = i) (workspaces d) = [w] \<and>
                 get_workspace (Some u) i d =
                   Response 200 (JObj [(''id'', JStr i), (''name'', JStr (w_name w)),
                                       (''diagram'', JSON_parse (w_diagram_json w)),
                                       (''updatedAt'', JStr (w_updated_at w))]))) \<and>
         (\<not> (\<exists>m \<in> set (workspace_members d). m_user_id m = u \<and> m_workspace_id m = i) \<longrightarrow>
            get_workspace (Some u) i d = Response 404 (JObj [(''error'', JStr ''Not found'')]))"
proof (intro conjI impI)
  have ok: "db_ok d"
    using reachable_ok[of evs us] assms(2) by (simp add: server_ok_def)
  {
    assume "\<exists>m \<in> set (workspace_members d). m_user_id m = u \<and> m_workspace_id m = i"
    then obtain m where m: "m \<in> set (workspace_members d)" "m_user_id m = u" "m_workspace_id m = i"
      by blast
    with ok obtain w where w: "w \<in> set (workspaces d)" "w_id w = i"
      by (auto simp: db_ok_def)
    from ok w have single: "filter (\<lambda>y. w_id y = i) (workspaces d) = [w]"
      using filter_key_single[of w_id "workspaces d" w] by (simp add: db_ok_def)
    from m w have "member_workspace i u d \<noteq> []"
      by (auto simp: member_workspace_empty_iff)
    then obtain h hs where h: "member_workspace i u d = h # hs"
      by (cases "member_workspace i u d") auto
    then have "h \<in> set (member_workspace i u d)" by simp
    then have "h \<in> set (filter (\<lambda>y. w_id y = i) (workspaces d))"
      by (auto simp: set_member_workspace)
    with single have "h = w" by simp
    with h w single get_workspace_found[OF assms(1), of i d w hs]
    show "\<exists>w. filter (\<lambda>w. w_id w = i) (workspaces d) = [w] \<and>
              get_workspace (Some u) i d =
                Response 200 (JObj [(''id'', JStr i), (''name'', JStr (w_name w)),
                                    (''diagram'', JSON_parse (w_diagram_json w)),
                                    (''updatedAt'', JStr (w_updated_at w))])"
      by auto
  }
  {
    assume "\<not> (\<exists>m \<in> set (workspace_members d). m_user_id m = u \<and> m_workspace_id m = i)"
    then have "member_workspace i u d = []"
      by (auto simp: member_workspace_empty_iff)
    then show "get_workspace (Some u) i d = Response 404 (JObj [(''error'', JStr ''Not found'')])"
      by (rule get_workspace_missing[OF assms(1)])
  }
qed

text \<open>On the example: user 2 reads its own \<^verbatim>\<open>w1\<close>; \<^verbatim>\<open>w2\<close>, which exists and belongs to
  user 3, and \<^verbatim>\<open>w9\<close>, which does not exist, give the same 404.\<close>

theorem get_workspace_iff_membership_witness:
  "requireAuth (Some 2) \<and>
   get_workspace (Some 2) ''w1'' (db example_server) =
     Response 200 (JObj [(''id'', JStr ''w1''), (''name'', JStr ''Shop''),
                         (''diagram'', JObj [(''tables'', JArr [])]),
                         (''updatedAt'', JStr ''2024-05-01 10:00:00'')]) \<and>
   get_workspace (Some 2) ''w2'' (db example_server) =
     Response 404 (JObj [(''error'', JStr ''Not found'')]) \<and>
   get_workspace (Some 2) ''w9'' (db example_server) =
     Response 404 (JObj [(''error'', JStr ''Not found'')])"
proof -
  have d: "db example_server = db (run example_events (start []))"
    by (simp add: example_server_run)
  from get_workspace_iff_membership[OF example_auth d, of "''w1''"]
       get_workspace_iff_membership[OF example_auth d, of "''w2''"]
       get_workspace_iff_membership[OF example_auth d, of "''w9''"]
  show ?thesis
    by (simp add: example_auth example_server_def shop_row_def blog_row_def)
qed

text \<open>
  Claim C2, as stated, fails: on the empty tables the server starts with, a create whose
  second statement fails (for a reason other than uniqueness) answers 500 and leaves the
  workspace row \<^verbatim>\<open>w1\<close> in place with no membership row; the run of that one request
  reaches this state.
\<close>

theorem post_workspaces_not_atomic:
  "post_workspaces env_member_fails (Some 2) body_shop
     \<lparr>users = [], workspaces = [], workspace_members = []\<rparr> =
   (\<lparr>users = [], workspaces = [shop_row], workspace_members = []\<rparr>,
    Response 500 (JObj [(''error'', JStr ''Failed to create workspace'')])) \<and>
   db (run [POST_workspaces env_member_fails (Some 2) body_shop] (start [])) =
     \<lparr>users = [], workspaces = [shop_row], workspace_members = []\<rparr>"
  by (simp add: post_workspaces_def requireAuth_def insert_workspace_def insert_member_def
      JSON_stringify_def error_body_def example_defs env_member_fails_def run_def start_def)

text \<open>
  Claim C2, amended. Create runs two separate statements. In every state the server
  reaches, a call ends in one of three ways: the database is unchanged and the answer is
  400, 401, 409 or 500; or the workspace row and the caller's role-\<^verbatim>\<open>owner\<close> membership
  row are both appended and the answer is 200; or the membership insert failed, the answer
  is 500 and the workspace row stays without a membership row.
\<close>

theorem post_workspaces_two_statements:
  assumes "d = db (run evs (start us))"
    and "post_workspaces env sess b d = (d', r)"
  shows "(d' = d \<and> (\<exists>v. r = Response 400 v \<or> r = Response 401 v \<or> r = Response 409 v \<or> r = Response 500 v)) \<or>
         (\<exists>u i n. sess = Some u \<and> b_id b = Str i \<and> b_name b = Str n \<and>
            workspaces d' = workspaces d @
               [\<lparr>w_id = i, w_name = n, w_owner_id = u,
                 w_diagram_json = JSON_stringify (nullish_or (b_diagram b) (JObj [])),
                 w_created_at = datetime_now env, w_updated_at = datetime_now env\<rparr>] \<and>
            ((workspace_members d' = workspace_members d @
                 [\<lparr>m_user_id = u, m_workspace_id = i, m_role = ''owner''\<rparr>] \<and>
              r = Response 200 (JObj [(''id'', JStr i), (''name'', JStr n)])) \<or>
             (insert_member_fails env \<and> workspace_members d' = workspace_members d \<and>
              r = Response 500 (JObj [(''error'', JStr ''Failed to create workspace'')]))))"
proof (cases "\<exists>u i n. sess = Some u \<and> u \<noteq> 0 \<and> b_id b = Str i \<and> b_name b = Str n \<and> i \<noteq> [] \<and> n \<noteq> []")
  case False
  from post_workspaces_rejected[OF False, of env d] assms(2) show ?thesis by auto
next
  case True
  then obtain u i n where *: "sess = Some u" "u \<noteq> 0" "b_id b = Str i" "b_name b = Str n"
      "i \<noteq> []" "n \<noteq> []" by blast
  note acc = post_workspaces_accepted[OF *(2-6), of env d]
  show ?thesis
  proof (cases "insert_workspace (insert_workspace_fails env) (datetime_now env) i n u
                  (JSON_stringify (nullish_or (b_diagram b) (JObj []))) d")
    case (Inl e)
    with acc assms(2) * have "d' = d" "r = create_failed e" by simp_all
    then show ?thesis by (cases e) (simp_all add: error_body_def)
  next
    case (Inr d1)
    note d1 = insert_workspace_rows[OF Inr]
    show ?thesis
    proof (cases "insert_member (insert_member_fails env) u i ''owner'' d1")
      case (Inl e)
      from insert_member_Inl[OF Inl] have "insert_member_fails env \<and> e = Other_failure"
      proof
        assume "\<not> insert_member_fails env \<and> e = UNIQUE_constraint_failed \<and>
          (\<exists>m \<in> set (workspace_members d1). m_user_id m = u \<and> m_workspace_id m = i)"
        then obtain m where "m \<in> set (workspace_members d1)" "m_workspace_id m = i" by blast
        with d1 have "m \<in> set (workspace_members d)" by simp
        from members_of_run[OF assms(1) this] \<open>m_workspace_id m = i\<close> d1
        show ?thesis by simp
      qed simp
      moreover from acc assms(2) * Inl \<open>insert_workspace _ _ _ _ _ _ _ = Inr d1\<close>
      have "d' = d1" "r = create_failed e" by simp_all
      ultimately show ?thesis using * d1
        by (simp add: error_body_def JSON_stringify_def)
    next
      case (Inr d2)
      from acc assms(2) * Inr \<open>insert_workspace _ _ _ _ _ _ _ = Inr d1\<close>
      have "d' = d2" "r = Response 200 (JObj [(''id'', JStr i), (''name'', JStr n)])" by simp_all
      with * d1 insert_member_rows[OF Inr] show ?thesis
        by (simp add: JSON_stringify_def)
    qed
  qed
qed

text \<open>On the empty server: the same request with and without a failing membership insert.\<close>

theorem post_workspaces_two_statements_witness:
  "post_workspaces env_member_fails (Some 2) body_shop (db (run [] (start []))) =
     (\<lparr>users = [], workspaces = [shop_row], workspace_members = []\<rparr>,
      Response 500 (JObj [(''error'', JStr ''Failed to create workspace'')])) \<and>
   post_workspaces env_day1 (Some 2) body_shop (db (run [] (start []))) =
     (\<lparr>users = [], workspaces = [shop_row],
       workspace_members = [\<lparr>m_user_id = 2, m_workspace_id = ''w1'', m_role = ''owner''\<rparr>]\<rparr>,
      Response 200 (JObj [(''id'', JStr ''w1''), (''name'', JStr ''Shop'')])) \<and>
   insert_member_fails env_member_fails"
proof -
  have 1: "post_workspaces env_member_fails (Some 2) body_shop (db (run [] (start []))) =
     (\<lparr>users = [], workspaces = [shop_row], workspace_members = []\<rparr>,
      Response 500 (JObj [(''error'', JStr ''Failed to create workspace'')]))"
    by (simp add: post_workspaces_def requireAuth_def insert_workspace_def insert_member_def
      JSON_stringify_def error_body_def example_defs env_member_fails_def run_def start_def)
  have 2: "post_workspaces env_day1 (Some 2) body_shop (db (run [] (start []))) =
     (\<lparr>users = [], workspaces = [shop_row],
       workspace_members = [\<lparr>m_user_id = 2, m_workspace_id = ''w1'', m_role = ''owner''\<rparr>]\<rparr>,
      Response 200 (JObj [(''id'', JStr ''w1''), (''name'', JStr ''Shop'')]))"
    by (simp add: post_workspaces_def requireAuth_def insert_workspace_def insert_member_def
      JSON_stringify_def error_body_def example_defs env_member_fails_def run_def start_def)
  from post_workspaces_two_statements[OF refl 1] post_workspaces_two_statements[OF refl 2] 1 2
  show ?thesis by (simp add: env_member_fails_def)
qed

text \<open>
  Claim C3. In every state the server reaches, when \<^verbatim>\<open>PUT /api/workspaces/:id\<close> answers
  200, the response body is \<^verbatim>\<open>{ok: true, updatedAt: now}\<close> and, for every socket joined to
  the room of that id, the deliveries addressed to it are exactly one
  \<^verbatim>\<open>workspace:update\<close> event whose payload carries the same \<^verbatim>\<open>updatedAt\<close>. The
  request names no socket, so no joined socket is left out.
\<close>

theorem put_workspace_broadcast:
  assumes "s = run evs (start us)"
    and "put_workspace now sess i b s = (s', Response 200 v, out)"
  shows "v = JObj [(''ok'', JBool True), (''updatedAt'', JStr now)] \<and>
         (\<forall>c. (room_of i, c) \<in> set (rooms s) \<longrightarrow>
            filter (\<lambda>d. fst d = c) out =
              [(c, ''workspace:update'',
                [(''id'', Some (JStr i)), (''name'', js_value (b_name b)),
                 (''diagram'', b_diagram b), (''updatedAt'', Some (JStr now))])])"
proof -
  have "distinct (rooms s)"
    using reachable_ok[of evs us] assms(1) by (simp add: server_ok_def)
  with put_workspace_200[OF assms(2)] show ?thesis
    by (auto simp: io_to_emit_deliveries)
qed

text \<open>On the example: socket 7, joined to \<^verbatim>\<open>w1\<close>, receives the one event.\<close>

theorem put_workspace_broadcast_witness:
  "filter (\<lambda>d. fst d = 7) (snd (snd (put_workspace now_day3 (Some 2) ''w1'' body_rename example_server))) =
     [(7, ''workspace:update'',
        [(''id'', Some (JStr ''w1'')), (''name'', Some (JStr ''Store'')), (''diagram'', None),
         (''updatedAt'', Some (JStr now_day3))])] \<and>
   fst (snd (put_workspace now_day3 (Some 2) ''w1'' body_rename example_server)) =
     Response 200 (JObj [(''ok'', JBool True), (''updatedAt'', JStr now_day3)]) \<and>
   (room_of ''w1'', 7) \<in> set (rooms example_server)"
proof -
  have j: "(room_of ''w1'', 7) \<in> set (rooms example_server)"
    by (simp add: room_of_def example_server_def)
  from put_workspace_broadcast[OF example_server_run example_put_rename] j
  show ?thesis by (simp add: example_put_rename)
qed

text \<open>
  Claim C4, as stated, fails in its second half. User 2 renames \<^verbatim>\<open>w1\<close> when the
  server's clock reads 08:00, which the row stores; the clock is then set back an hour and
  the same user renames again: the update answers 200 with the stamp of 07:00, below the
  stored one, and the row stores it.
\<close>

theorem put_workspace_updatedAt_goes_back:
  "run (example_events @ [PUT_workspace ''2024-05-03T08:00:00.000Z'' (Some 2) ''w1'' body_rename])
     (start []) = example_server_renamed \<and>
   map w_updated_at (workspaces (db example_server_renamed)) =
     [''2024-05-03T08:00:00.000Z'', ''2024-05-02 09:30:00''] \<and>
   fst (snd (put_workspace ''2024-05-03T07:00:00.000Z'' (Some 2) ''w1'' body_rename
               example_server_renamed)) =
     Response 200 (JObj [(''ok'', JBool True), (''updatedAt'', JStr ''2024-05-03T07:00:00.000Z'')]) \<and>
   map w_updated_at (workspaces (db (fst (put_workspace ''2024-05-03T07:00:00.000Z'' (Some 2) ''w1''
                                            body_rename example_server_renamed)))) =
     [''2024-05-03T07:00:00.000Z'', ''2024-05-02 09:30:00''] \<and>
   ''2024-05-03T07:00:00.000Z'' < ''2024-05-03T08:00:00.000Z''"
proof -
  have "run (example_events @ [PUT_workspace ''2024-05-03T08:00:00.000Z'' (Some 2) ''w1'' body_rename])
          (start []) = example_server_renamed"
    using example_put_rename
    by (simp add: run_snoc example_server_run [symmetric] example_server_renamed_def now_day3_def)
  moreover have "put_workspace ''2024-05-03T07:00:00.000Z'' (Some 2) ''w1'' body_rename
                   example_server_renamed =
      (example_server\<lparr>db := (db example_server)\<lparr>workspaces :=
         [shop_row\<lparr>w_name := ''Store'', w_updated_at := ''2024-05-03T07:00:00.000Z''\<rparr>, blog_row]\<rparr>\<rparr>,
       Response 200 (JObj [(''ok'', JBool True), (''updatedAt'', JStr ''2024-05-03T07:00:00.000Z'')]),
       io_to_emit (room_of ''w1'') ''workspace:update''
         [(''id'', Some (JStr ''w1'')), (''name'', Some (JStr ''Store'')), (''diagram'', None),
          (''updatedAt'', Some (JStr ''2024-05-03T07:00:00.000Z''))] (rooms example_server))"
    by (simp add: put_workspace_def requireAuth_def member_workspace_def member_workspaces_def
        example_defs example_server_renamed_def update_workspace_def)
  ultimately show ?thesis
    by (simp add: example_server_renamed_def shop_row_def blog_row_def now_day3_def)
qed

text \<open>
  Claim C4, amended. When an update answers 200, the \<^verbatim>\<open>updatedAt\<close> of the response is the
  reading \<open>now\<close> of the server's clock; the same request with any other body gets the same
  answer, so nothing the caller sends reaches the stamp. Afterwards the row with the id
  exists and stores \<open>now\<close>, and every other row keeps its stamp. The handler does not
  compare \<open>now\<close> with the stamp the row stored before.
\<close>

theorem put_workspace_updatedAt:
  assumes "put_workspace now sess i b s = (s', Response 200 v, out)"
  shows "v = JObj [(''ok'', JBool True), (''updatedAt'', JStr now)] \<and>
         (\<forall>b'. fst (snd (put_workspace now sess i b' s)) =
                 Response 200 (JObj [(''ok'', JBool True), (''updatedAt'', JStr now)])) \<and>
         (\<exists>w \<in> set (workspaces (db s')). w_id w = i) \<and>
         (\<forall>w \<in> set (workspaces (db s')). w_id w = i \<longrightarrow> w_updated_at w = now) \<and>
         list_all2 (\<lambda>w w'. w_id w \<noteq> i \<longrightarrow> w_updated_at w' = w_updated_at w)
           (workspaces (db s)) (workspaces (db s'))"
proof -
  let ?t = "if falsy (b_diagram b) then None else map_option JSON_stringify (b_diagram b)"
  from put_workspace_200[OF assms] obtain u
    where u: "sess = Some u" "requireAuth sess" "member_workspace i u (db s) \<noteq> []"
      and v: "v = JObj [(''ok'', JBool True), (''updatedAt'', JStr now)]"
      and s': "s' = s\<lparr>db := update_workspace (or_null (b_name b)) ?t now i (db s)\<rparr>"
    by blast
  have any: "\<forall>b'. fst (snd (put_workspace now sess i b' s)) =
                 Response 200 (JObj [(''ok'', JBool True), (''updatedAt'', JStr now)])"
    using u by (simp add: put_workspace_def)
  from u(3) obtain w where w: "w \<in> set (workspaces (db s))" "w_id w = i"
    by (auto simp: member_workspace_empty_iff)
  have ids: "w_id ` set (workspaces (db s')) = w_id ` set (workspaces (db s))"
    unfolding s' using update_workspace_ids[of "or_null (b_name b)" ?t now i "db s"]
    by (simp flip: set_map)
  from w have "i \<in> w_id ` set (workspaces (db s))" by auto
  then have "i \<in> w_id ` set (workspaces (db s'))" by (simp only: ids)
  then have ex: "\<exists>w \<in> set (workspaces (db s')). w_id w = i" by auto
  have new: "\<forall>w \<in> set (workspaces (db s')). w_id w = i \<longrightarrow> w_updated_at w = now"
    unfolding s' using update_workspace_stamped by simp
  have "list_all2 (\<lambda>w w'. w_id w \<noteq> i \<longrightarrow> w_updated_at w' = w_updated_at w)
           (workspaces (db s)) (workspaces (update_workspace (or_null (b_name b)) ?t now i (db s)))"
    by (rule list_all2_mono[OF update_workspace_frame]) simp
  then have others: "list_all2 (\<lambda>w w'. w_id w \<noteq> i \<longrightarrow> w_updated_at w' = w_updated_at w)
           (workspaces (db s)) (workspaces (db s'))"
    unfolding s' by simp
  from v any ex new others show ?thesis by blast
qed

text \<open>On the example: the rename of \<^verbatim>\<open>w1\<close> at \<open>now_day3\<close>.\<close>

theorem put_workspace_updatedAt_witness:
  "fst (snd (put_workspace now_day3 (Some 2) ''w1'' body_rename example_server)) =
     Response 200 (JObj [(''ok'', JBool True), (''updatedAt'', JStr now_day3)]) \<and>
   fst (snd (put_workspace now_day3 (Some 2) ''w1'' body_zero example_server)) =
     Response 200 (JObj [(''ok'', JBool True), (''updatedAt'', JStr now_day3)]) \<and>
   map w_updated_at (workspaces (db (fst (put_workspace now_day3 (Some 2) ''w1'' body_rename example_server)))) =
     [now_day3, ''2024-05-02 09:30:00'']"
proof -
  from put_workspace_updatedAt[OF example_put_rename]
  have "fst (snd (put_workspace now_day3 (Some 2) ''w1'' body_zero example_server)) =
     Response 200 (JObj [(''ok'', JBool True), (''updatedAt'', JStr now_day3)])"
    by blast
  then show ?thesis
    by (simp add: example_put_rename blog_row_def)
qed

text \<open>
  Claim C5, as stated, fails: an update whose body supplies \<^verbatim>\<open>diagram: 0\<close> answers 200 and
  leaves the stored diagram of \<^verbatim>\<open>w1\<close> as it was; the supplied value is not applied.
\<close>

theorem put_workspace_falsy_diagram_kept:
  "b_diagram body_zero = Some (JNum 0) \<and>
   fst (snd (put_workspace now_day3 (Some 2) ''w1'' body_zero example_server)) =
     Response 200 (JObj [(''ok'', JBool True), (''updatedAt'', JStr now_day3)]) \<and>
   map w_diagram_json (workspaces (db example_server)) =
     [Stringified (JObj [(''tables'', JArr [])]), Stringified (JObj [])] \<and>
   map w_diagram_json (workspaces (db (fst (put_workspace now_day3 (Some 2) ''w1'' body_zero example_server)))) =
     [Stringified (JObj [(''tables'', JArr [])]), Stringified (JObj [])]"
  by (simp add: example_put_zero) (simp add: example_defs)

text \<open>
  Claim C5, amended. For a body whose name is absent, \<^verbatim>\<open>null\<close> or a string: in every state
  the server reaches, an update by a principal with a membership row answers 200, leaves the
  users and the memberships as they are, and changes the workspace rows one by one as
  follows. The id, the owner and created-at never change; a row with another id does not
  change at all; in the row with the id, a name supplied as a string replaces the name, an
  absent name and a name supplied as \<^verbatim>\<open>null\<close> keep it, a diagram supplied as a truthy value
  replaces the stored diagram (by its \<^verbatim>\<open>JSON.stringify\<close> text), and an absent diagram and
  a diagram supplied as a falsy value keep it.
\<close>

theorem put_workspace_fields:
  assumes "s = run evs (start us)"
    and "requireAuth (Some u)"
    and "\<exists>m \<in> set (workspace_members (db s)). m_user_id m = u \<and> m_workspace_id m = i"
    and "put_workspace now (Some u) i b s = (s', r, out)"
  shows "r = Response 200 (JObj [(''ok'', JBool True), (''updatedAt'', JStr now)]) \<and>
         users (db s') = users (db s) \<and>
         workspace_members (db s') = workspace_members (db s) \<and>
         list_all2 (\<lambda>w w'.
             w_id w' = w_id w \<and> w_owner_id w' = w_owner_id w \<and> w_created_at w' = w_created_at w \<and>
             (w_id w \<noteq> i \<longrightarrow> w' = w) \<and>
             (w_id w = i \<longrightarrow>
                (\<forall>n. b_name b = Str n \<longrightarrow> w_name w' = n) \<and>
                (b_name b = Undefined \<or> b_name b = Null \<longrightarrow> w_name w' = w_name w) \<and>
                (\<forall>v. b_diagram b = Some v \<and> \<not> falsy (Some v) \<longrightarrow>
                     w_diagram_json w' = JSON_stringify v) \<and>
                (falsy (b_diagram b) \<longrightarrow> w_diagram_json w' = w_diagram_json w)))
           (workspaces (db s)) (workspaces (db s'))"
proof -
  let ?t = "if falsy (b_diagram b) then None else map_option JSON_stringify (b_diagram b)"
  from put_workspace_member[OF assms(2) member_of_run[OF assms(1,3)], of now b] assms(4)
  have r: "r = Response 200 (JObj [(''ok'', JBool True), (''updatedAt'', JStr now)])"
    and s': "db s' = update_workspace (or_null (b_name b)) ?t now i (db s)"
    by auto
  have "list_all2 (\<lambda>w w'.
             w_id w' = w_id w \<and> w_owner_id w' = w_owner_id w \<and> w_created_at w' = w_created_at w \<and>
             (w_id w \<noteq> i \<longrightarrow> w' = w) \<and>
             (w_id w = i \<longrightarrow>
                (\<forall>n. b_name b = Str n \<longrightarrow> w_name w' = n) \<and>
                (b_name b = Undefined \<or> b_name b = Null \<longrightarrow> w_name w' = w_name w) \<and>
                (\<forall>v. b_diagram b = Some v \<and> \<not> falsy (Some v) \<longrightarrow>
                     w_diagram_json w' = JSON_stringify v) \<and>
                (falsy (b_diagram b) \<longrightarrow> w_diagram_json w' = w_diagram_json w)))
           (workspaces (db s)) (workspaces (update_workspace (or_null (b_name b)) ?t now i (db s)))"
    by (rule list_all2_mono[OF update_workspace_frame]) auto
  with r s' update_workspace_others[of "or_null (b_name b)" ?t now i "db s"] show ?thesis by simp
qed

text \<open>On the example: renaming \<^verbatim>\<open>w1\<close> keeps its diagram and keeps \<^verbatim>\<open>w2\<close>; a body with
  \<^verbatim>\<open>name: null\<close> and a new diagram keeps the name and stores the diagram.\<close>

theorem put_workspace_fields_witness:
  "requireAuth (Some 2) \<and>
   map m_user_id (workspace_members (db example_server)) = [2, 3] \<and>
   map m_workspace_id (workspace_members (db example_server)) = [''w1'', ''w2''] \<and>
   workspaces (db (fst (put_workspace now_day3 (Some 2) ''w1'' body_rename example_server))) =
     [shop_row\<lparr>w_name := ''Store'', w_updated_at := now_day3\<rparr>, blog_row] \<and>
   workspaces (db (fst (put_workspace now_day3 (Some 2) ''w1'' body_null_name example_server))) =
     [shop_row\<lparr>w_diagram_json := Stringified (JObj [(''tables'', JArr [JStr ''t1''])]),
               w_updated_at := now_day3\<rparr>, blog_row] \<and>
   list_all2 (\<lambda>w w'. w_id w' = w_id w \<and> w_owner_id w' = w_owner_id w \<and>
                      w_created_at w' = w_created_at w \<and> w_diagram_json w' = w_diagram_json w)
     [shop_row, blog_row] [shop_row\<lparr>w_name := ''Store'', w_updated_at := now_day3\<rparr>, blog_row] \<and>
   list_all2 (\<lambda>w w'. w_id w' = w_id w \<and> w_owner_id w' = w_owner_id w \<and>
                      w_created_at w' = w_created_at w \<and> w_name w' = w_name w)
     [shop_row, blog_row]
     [shop_row\<lparr>w_diagram_json := Stringified (JObj [(''tables'', JArr [JStr ''t1''])]),
               w_updated_at := now_day3\<rparr>, blog_row]"
proof -
  have ws: "workspaces (db example_server) = [shop_row, blog_row]"
    by (simp add: example_server_def)
  from put_workspace_fields[OF example_server_run example_auth example_member_row example_put_rename]
  have "list_all2 (\<lambda>w w'. w_id w' = w_id w \<and> w_owner_id w' = w_owner_id w \<and>
                      w_created_at w' = w_created_at w \<and> w_diagram_json w' = w_diagram_json w)
     [shop_row, blog_row] [shop_row\<lparr>w_name := ''Store'', w_updated_at := now_day3\<rparr>, blog_row]"
    by (simp add: ws body_rename_def shop_row_def blog_row_def)
  moreover
  from put_workspace_fields[OF example_server_run example_auth example_member_row example_put_null_name]
  have "list_all2 (\<lambda>w w'. w_id w' = w_id w \<and> w_owner_id w' = w_owner_id w \<and>
                      w_created_at w' = w_created_at w \<and> w_name w' = w_name w)
     [shop_row, blog_row]
     [shop_row\<lparr>w_diagram_json := Stringified (JObj [(''tables'', JArr [JStr ''t1''])]),
               w_updated_at := now_day3\<rparr>, blog_row]"
    by (simp add: ws body_null_name_def shop_row_def blog_row_def)
  moreover have "map m_user_id (workspace_members (db example_server)) = [2, 3]"
    "map m_workspace_id (workspace_members (db example_server)) = [''w1'', ''w2'']"
    by (simp_all add: example_server_def)
  ultimately show ?thesis using example_auth
    by (simp add: example_put_rename example_put_null_name)
qed

text \<open>
  Claim C6. In every state the server reaches, the relay of a \<^verbatim>\<open>{id, patch}\<close> message
  leaves the whole server state, the database included, as it is; every socket joined to the
  room of the id other than the sender is delivered exactly one \<^verbatim>\<open>workspace:patch\<close>
  event with the same \<^verbatim>\<open>id\<close> and \<^verbatim>\<open>patch\<close>, and the sender none.
\<close>

theorem workspace_update_relay:
  assumes "s = run evs (start us)"
    and "workspace_update sender msg s = (s', out)"
  shows "s' = s \<and>
         (\<forall>c. (room_of (p_id msg), c) \<in> set (rooms s) \<and> c \<noteq> sender \<longrightarrow>
            filter (\<lambda>d. fst d = c) out =
              [(c, ''workspace:patch'', [(''id'', Some (JStr (p_id msg))), (''patch'', p_patch msg)])]) \<and>
         filter (\<lambda>d. fst d = sender) out = []"
proof -
  have "distinct (rooms s)"
    using reachable_ok[of evs us] assms(1) by (simp add: server_ok_def)
  with assms(2) show ?thesis
    by (auto simp: workspace_update_def socket_to_emit_deliveries)
qed

text \<open>On the example: socket 7 sends, socket 8 receives, socket 9 is in another room.\<close>

theorem workspace_update_relay_witness:
  "workspace_update 7 \<lparr>p_id = ''w1'', p_patch = Some (JObj [(''cursor'', JNum 5)])\<rparr> example_server =
     (example_server,
      [(8, ''workspace:patch'',
        [(''id'', Some (JStr ''w1'')), (''patch'', Some (JObj [(''cursor'', JNum 5)]))])]) \<and>
   (room_of ''w1'', 8) \<in> set (rooms example_server) \<and> (8::nat) \<noteq> 7"
proof -
  have e: "workspace_update 7 \<lparr>p_id = ''w1'', p_patch = Some (JObj [(''cursor'', JNum 5)])\<rparr> example_server =
     (example_server,
      [(8, ''workspace:patch'',
        [(''id'', Some (JStr ''w1'')), (''patch'', Some (JObj [(''cursor'', JNum 5)]))])])"
    by (simp add: workspace_update_def socket_to_emit_def sockets_in_def room_of_def example_server_def)
  have j: "(room_of ''w1'', 8) \<in> set (rooms example_server)"
    by (simp add: room_of_def example_server_def)
  from workspace_update_relay[OF example_server_run e] e j show ?thesis by simp
qed

text \<open>
  Claim C7. After a create for the id \<open>i\<close> (a well-formed, authenticated request whose
  workspace insert did not fail for a reason other than uniqueness), a second such create
  for the same id, by any principal, answers 409 \<^verbatim>\<open>{error: 'Workspace already exists'}\<close>
  and leaves the database exactly as the first call left it.
\<close>

theorem post_workspaces_twice:
  assumes "requireAuth sess1" "requireAuth sess2"
    and "b_id b1 = Str i" "b_id b2 = Str i" "i \<noteq> []"
    and "\<not> falsy_str (b_name b1)" "\<not> falsy_str (b_name b2)"
    and "\<not> insert_workspace_fails env1" "\<not> insert_workspace_fails env2"
    and "post_workspaces env1 sess1 b1 d = (d1, r1)"
  shows "post_workspaces env2 sess2 b2 d1 =
           (d1, Response 409 (JObj [(''error'', JStr ''Workspace already exists'')]))"
proof -
  from post_workspaces_leaves_id[OF assms(1,3,5,6,8), of d] assms(10)
  have "i \<in> w_id ` set (workspaces d1)" by simp
  from post_workspaces_existing[OF assms(2,4,5,7,9) this] show ?thesis .
qed

text \<open>On empty tables: the first call creates \<^verbatim>\<open>w1\<close>, the second is refused.\<close>

theorem post_workspaces_twice_witness:
  "requireAuth (Some 2) \<and> \<not> falsy_str (b_name body_shop) \<and>
   \<not> insert_workspace_fails env_day1 \<and> \<not> insert_workspace_fails env_day2 \<and>
   post_workspaces env_day1 (Some 2) body_shop \<lparr>users = [], workspaces = [], workspace_members = []\<rparr> =
     (\<lparr>users = [], workspaces = [shop_row],
       workspace_members = [\<lparr>m_user_id = 2, m_workspace_id = ''w1'', m_role = ''owner''\<rparr>]\<rparr>,
      Response 200 (JObj [(''id'', JStr ''w1''), (''name'', JStr ''Shop'')])) \<and>
   post_workspaces env_day2 (Some 2) body_shop
     \<lparr>users = [], workspaces = [shop_row],
       workspace_members = [\<lparr>m_user_id = 2, m_workspace_id = ''w1'', m_role = ''owner''\<rparr>]\<rparr> =
     (\<lparr>users = [], workspaces = [shop_row],
       workspace_members = [\<lparr>m_user_id = 2, m_workspace_id = ''w1'', m_role = ''owner''\<rparr>]\<rparr>,
      Response 409 (JObj [(''error'', JStr ''Workspace already exists'')]))"
proof -
  have first: "post_workspaces env_day1 (Some 2) body_shop \<lparr>users = [], workspaces = [], workspace_members = []\<rparr> =
     (\<lparr>users = [], workspaces = [shop_row],
       workspace_members = [\<lparr>m_user_id = 2, m_workspace_id = ''w1'', m_role = ''owner''\<rparr>]\<rparr>,
      Response 200 (JObj [(''id'', JStr ''w1''), (''name'', JStr ''Shop'')]))"
    by (simp add: post_workspaces_def requireAuth_def insert_workspace_def insert_member_def
      JSON_stringify_def example_defs)
  have i: "b_id body_shop = Str ''w1''" "''w1'' \<noteq> []" and n: "\<not> falsy_str (b_name body_shop)"
    and e: "\<not> insert_workspace_fails env_day1" "\<not> insert_workspace_fails env_day2"
    by (simp_all add: example_defs)
  from post_workspaces_twice[OF example_auth example_auth i(1) i(1) i(2) n n e first] first n e example_auth
  show ?thesis by simp
qed

text \<open>
  Claim C8 holds for a password that is a string (lemma \<open>login_string_password\<close> above), and
  the handler answers both failures with the same line. It misses the password that is
  present and not a string: \<^verbatim>\<open>!password\<close> lets the number 1 through,
  \<^verbatim>\<open>bcrypt.compareSync\<close> is reached only when the email is registered, and there it throws.
  With \<^verbatim>\<open>a@x.com\<close> registered, the two attempts get different answers:
\<close>

theorem login_number_password:
  "login example_compareSync \<lparr>c_email = Str ''a@x.com'', c_password = Some (JNum 1)\<rparr> None
     example_users = (None, Error_page 500) \<and>
   login example_compareSync \<lparr>c_email = Str ''b@x.com'', c_password = Some (JNum 1)\<rparr> None
     example_users = (None, Response 401 (JObj [(''error'', JStr ''Invalid credentials'')]))"
  by (simp add: login_def example_users_def error_body_def)

text \<open>
  Claim C9 names the third field of a list element \<^verbatim>\<open>updatedAt\<close>. The handler sends the
  rows as the query returns them, so the field is \<^verbatim>\<open>updated_at\<close>, while
  \<^verbatim>\<open>GET /api/workspaces/:id\<close>, the \<^verbatim>\<open>PUT\<close> response and the broadcast all say
  \<^verbatim>\<open>updatedAt\<close>. The list of user 2 on the example:
\<close>

theorem get_workspaces_updated_at_key:
  "get_workspaces (Some 2) (db example_server) =
     Response 200 (JArr [JObj [(''id'', JStr ''w1''), (''name'', JStr ''Shop''),
                               (''updated_at'', JStr ''2024-05-01 10:00:00'')]])"
  by (simp add: get_workspaces_def requireAuth_def member_workspaces_def
      order_by_updated_at_desc_def list_row_def example_server_def shop_row_def blog_row_def)

text \<open>
  Claim C10. In every state the server reaches: an update by a member whose body supplies a
  falsy diagram (\<^verbatim>\<open>null\<close>, \<^verbatim>\<open>false\<close>, \<^verbatim>\<open>0\<close>, \<^verbatim>\<open>''\<close>) leaves the state the same
  request without the field would leave, every stored diagram is as before, and each
  broadcast event still carries the supplied value; and a well-formed create of a new id
  with a missing or \<^verbatim>\<open>null\<close> diagram, whose statements do not fail, answers 200 and
  stores \<^verbatim>\<open>{}\<close> as the diagram.
\<close>

theorem falsy_diagram_ignored:
  "(s = run evs (start us) \<and> requireAuth (Some u) \<and>
    (\<exists>m \<in> set (workspace_members (db s)). m_user_id m = u \<and> m_workspace_id m = i) \<and>
    b_diagram b = Some v \<and> falsy (Some v) \<and>
    put_workspace now (Some u) i b s = (s', r, out) \<longrightarrow>
      s' = fst (put_workspace now (Some u) i (b\<lparr>b_diagram := None\<rparr>) s) \<and>
      map w_diagram_json (workspaces (db s')) = map w_diagram_json (workspaces (db s)) \<and>
      out = map (\<lambda>c. (c, ''workspace:update'',
                       [(''id'', Some (JStr i)), (''name'', js_value (b_name b)),
                        (''diagram'', Some v), (''updatedAt'', Some (JStr now))]))
              (sockets_in (room_of i) (rooms s))) \<and>
   (d = db (run evs' (start us')) \<and> requireAuth (Some u') \<and>
    b_id b' = Str i' \<and> i' \<noteq> [] \<and> b_name b' = Str n' \<and> n' \<noteq> [] \<and>
    (b_diagram b' = None \<or> b_diagram b' = Some JNull) \<and>
    i' \<notin> w_id ` set (workspaces d) \<and>
    \<not> insert_workspace_fails env \<and> \<not> insert_member_fails env \<longrightarrow>
      post_workspaces env (Some u') b' d =
        (d\<lparr>workspaces := workspaces d @
               [\<lparr>w_id = i', w_name = n', w_owner_id = u', w_diagram_json = Stringified (JObj []),
                 w_created_at = datetime_now env, w_updated_at = datetime_now env\<rparr>],
            workspace_members := workspace_members d @
               [\<lparr>m_user_id = u', m_workspace_id = i', m_role = ''owner''\<rparr>]\<rparr>,
         Response 200 (JObj [(''id'', JStr i'), (''name'', JStr n')])))"
proof (intro conjI impI; (elim conjE)?)
  assume a: "s = run evs (start us)" "requireAuth (Some u)"
    "\<exists>m \<in> set (workspace_members (db s)). m_user_id m = u \<and> m_workspace_id m = i"
    "b_diagram b = Some v" "falsy (Some v)" "put_workspace now (Some u) i b s = (s', r, out)"
  from a(4,5) have f: "falsy (b_diagram b)" by simp
  from a(6) have fst: "s' = fst (put_workspace now (Some u) i b s)" by simp
  from put_workspace_member[OF a(2) member_of_run[OF a(1,3)], of now b] a(6) f a(4)
  have db': "db s' = update_workspace (or_null (b_name b)) None now i (db s)"
    and out: "out = io_to_emit (room_of i) ''workspace:update''
                   [(''id'', Some (JStr i)), (''name'', js_value (b_name b)),
                    (''diagram'', Some v), (''updatedAt'', Some (JStr now))] (rooms s)"
    by auto
  show "s' = fst (put_workspace now (Some u) i (b\<lparr>b_diagram := None\<rparr>) s)"
    unfolding fst by (rule put_workspace_falsy_as_absent[OF f])
  show "map w_diagram_json (workspaces (db s')) = map w_diagram_json (workspaces (db s))"
    unfolding db' by (rule update_workspace_keeps_diagrams)
  show "out = map (\<lambda>c. (c, ''workspace:update'',
                       [(''id'', Some (JStr i)), (''name'', js_value (b_name b)),
                        (''diagram'', Some v), (''updatedAt'', Some (JStr now))]))
              (sockets_in (room_of i) (rooms s))"
    unfolding out by (simp add: io_to_emit_def)
next
  assume a: "d = db (run evs' (start us'))" "requireAuth (Some u')"
    "b_id b' = Str i'" "i' \<noteq> []" "b_name b' = Str n'" "n' \<noteq> []"
    "b_diagram b' = None \<or> b_diagram b' = Some JNull"
    "i' \<notin> w_id ` set (workspaces d)"
    "\<not> insert_workspace_fails env" "\<not> insert_member_fails env"
  from a(2) have u: "u' \<noteq> 0" by (simp add: requireAuth_def)
  from a(7) have dflt: "nullish_or (b_diagram b') (JObj []) = JObj []" by auto
  let ?d1 = "d\<lparr>workspaces := workspaces d @
               [\<lparr>w_id = i', w_name = n', w_owner_id = u', w_diagram_json = Stringified (JObj []),
                 w_created_at = datetime_now env, w_updated_at = datetime_now env\<rparr>]\<rparr>"
  from a(8,9) have 1: "insert_workspace (insert_workspace_fails env) (datetime_now env) i' n' u'
                  (JSON_stringify (nullish_or (b_diagram b') (JObj []))) d = Inr ?d1"
    unfolding dflt by (auto simp: insert_workspace_def JSON_stringify_def)
  have "\<not> (\<exists>m \<in> set (workspace_members d). m_user_id m = u' \<and> m_workspace_id m = i')"
    using members_of_run[OF a(1)] a(8) by blast
  with a(10) have 2: "insert_member (insert_member_fails env) u' i' ''owner'' ?d1 =
      Inr (?d1\<lparr>workspace_members := workspace_members d @
               [\<lparr>m_user_id = u', m_workspace_id = i', m_role = ''owner''\<rparr>]\<rparr>)"
    by (simp add: insert_member_def)
  from post_workspaces_accepted[OF u a(3,5,4,6), of env d] 1 2
  show "post_workspaces env (Some u') b' d =
        (d\<lparr>workspaces := workspaces d @
               [\<lparr>w_id = i', w_name = n', w_owner_id = u', w_diagram_json = Stringified (JObj []),
                 w_created_at = datetime_now env, w_updated_at = datetime_now env\<rparr>],
            workspace_members := workspace_members d @
               [\<lparr>m_user_id = u', m_workspace_id = i', m_role = ''owner''\<rparr>]\<rparr>,
         Response 200 (JObj [(''id'', JStr i'), (''name'', JStr n')]))"
    by simp
qed

text \<open>On the example: \<^verbatim>\<open>diagram: 0\<close> to \<^verbatim>\<open>w1\<close>, and the create of \<^verbatim>\<open>w2\<close> with no
  diagram.\<close>

theorem falsy_diagram_ignored_witness:
  "falsy (Some (JNum 0)) \<and>
   map w_diagram_json (workspaces (db (fst (put_workspace now_day3 (Some 2) ''w1'' body_zero example_server)))) =
     map w_diagram_json (workspaces (db example_server)) \<and>
   snd (snd (put_workspace now_day3 (Some 2) ''w1'' body_zero example_server)) =
     map (\<lambda>c. (c, ''workspace:update'',
                [(''id'', Some (JStr ''w1'')), (''name'', None),
                 (''diagram'', Some (JNum 0)), (''updatedAt'', Some (JStr now_day3))])) [7, 8] \<and>
   post_workspaces env_day2 (Some 3) body_blog (db (run [] (start []))) =
     (\<lparr>users = [], workspaces = [blog_row],
       workspace_members = [\<lparr>m_user_id = 3, m_workspace_id = ''w2'', m_role = ''owner''\<rparr>]\<rparr>,
      Response 200 (JObj [(''id'', JStr ''w2''), (''name'', JStr ''Blog'')]))"
proof -
  have f: "falsy (Some (JNum 0))" by simp
  have z: "b_diagram body_zero = Some (JNum 0)" "b_name body_zero = Undefined"
    by (simp_all add: body_zero_def)
  have auth2: "requireAuth (Some 3)" by (simp add: requireAuth_def)
  have b: "b_id body_blog = Str ''w2''" "''w2'' \<noteq> []" "b_name body_blog = Str ''Blog''" "''Blog'' \<noteq> []"
    "b_diagram body_blog = None \<or> b_diagram body_blog = Some JNull"
    by (simp_all add: body_blog_def)
  have new: "''w2'' \<notin> w_id ` set (workspaces (db (run [] (start []))))"
    by (simp add: run_def start_def)
  have e: "\<not> insert_workspace_fails env_day2" "\<not> insert_member_fails env_day2"
    by (simp_all add: env_day2_def)
  have s: "sockets_in (room_of ''w1'') (rooms example_server) = [7, 8]"
    by (simp add: sockets_in_def room_of_def example_server_def)
  have p: "put_workspace now_day3 (Some 2) ''w1'' body_zero example_server =
      (fst (put_workspace now_day3 (Some 2) ''w1'' body_zero example_server),
       fst (snd (put_workspace now_day3 (Some 2) ''w1'' body_zero example_server)),
       snd (snd (put_workspace now_day3 (Some 2) ''w1'' body_zero example_server)))"
    by simp
  note inst = falsy_diagram_ignored[of example_server example_events "[]" 2 "''w1''" body_zero
      "JNum 0" now_day3 _ _ _ "db (run [] (start []))" "[]" "[]" 3 body_blog "''w2''" "''Blog''" env_day2]
  from inst[THEN conjunct1, rule_format, OF conjI[OF example_server_run conjI[OF example_auth
        conjI[OF example_member_row conjI[OF z(1) conjI[OF f p]]]]]]
  have a: "map w_diagram_json (workspaces (db (fst (put_workspace now_day3 (Some 2) ''w1'' body_zero example_server)))) =
     map w_diagram_json (workspaces (db example_server))"
    and o': "snd (snd (put_workspace now_day3 (Some 2) ''w1'' body_zero example_server)) =
     map (\<lambda>c. (c, ''workspace:update'',
                [(''id'', Some (JStr ''w1'')), (''name'', js_value (b_name body_zero)),
                 (''diagram'', Some (JNum 0)), (''updatedAt'', Some (JStr now_day3))]))
       (sockets_in (room_of ''w1'') (rooms example_server))"
    by blast+
  from o' have o: "snd (snd (put_workspace now_day3 (Some 2) ''w1'' body_zero example_server)) =
     map (\<lambda>c. (c, ''workspace:update'',
                [(''id'', Some (JStr ''w1'')), (''name'', None),
                 (''diagram'', Some (JNum 0)), (''updatedAt'', Some (JStr now_day3))])) [7, 8]"
    by (simp add: z s)
  from inst[THEN conjunct2] auth2 b new e
  have c: "post_workspaces env_day2 (Some 3) body_blog (db (run [] (start []))) =
     (\<lparr>users = [], workspaces = [blog_row],
       workspace_members = [\<lparr>m_user_id = 3, m_workspace_id = ''w2'', m_role = ''owner''\<rparr>]\<rparr>,
      Response 200 (JObj [(''id'', JStr ''w2''), (''name'', JStr ''Blog'')]))"
    by (simp add: run_def start_def blog_row_def env_day2_def)
  from f a o c show ?thesis by blast
qed

end
